theory Spec2Isabelle
  imports Complex_Main "HOL-Library.Sublist"
begin

section \<open>Python data: strings, floats, exceptions\<close>

text \<open>
  A Python \<open>str\<close> is a sequence of Unicode code points. The calculator's glyphs
  (the multiplication sign U+00D7, the division sign U+00F7, the root sign U+221A and
  the Greek letter pi U+03C0) do not all fit an 8-bit character, so a string is a list
  of code points. \<open>u\<close> reads an ASCII literal as such a string.
\<close>

type_synonym pystr = "nat list"

definition u :: "string \<Rightarrow> pystr" where
  "u cs = map of_char cs"

text \<open>
  A Python \<open>float\<close> is an IEEE double: a finite double denotes a rational number,
  and there are the two infinities and not-a-number. Comparisons of doubles are exact;
  every comparison with not-a-number is false.
\<close>

datatype pyfloat = Fin rat | PosInf | NegInf | NaN

fun float_lt :: "pyfloat \<Rightarrow> pyfloat \<Rightarrow> bool" where
  "float_lt NaN _ = False"
| "float_lt _ NaN = False"
| "float_lt (Fin a) (Fin b) = (a < b)"
| "float_lt (Fin a) PosInf = True"
| "float_lt (Fin a) NegInf = False"
| "float_lt PosInf _ = False"
| "float_lt NegInf NegInf = False"
| "float_lt NegInf _ = True"

fun float_eq :: "pyfloat \<Rightarrow> pyfloat \<Rightarrow> bool" where
  "float_eq NaN _ = False"
| "float_eq _ NaN = False"
| "float_eq a b = (a = b)"

definition float_ge :: "pyfloat \<Rightarrow> pyfloat \<Rightarrow> bool" where
  "float_ge a b = (float_lt b a \<or> float_eq a b)"

fun float_abs :: "pyfloat \<Rightarrow> pyfloat" where
  "float_abs (Fin a) = Fin \<bar>a\<bar>"
| "float_abs PosInf = PosInf"
| "float_abs NegInf = PosInf"
| "float_abs NaN = NaN"

text \<open>
  The exceptions that cross the functions modelled here. \<open>TI84Error\<close> is the
  calculator's own exception and carries its message; the others are Python's.
\<close>

datatype exn =
    TI84Error pystr
  | ZeroDivisionError
  | ValueError
  | OverflowError
  | NameError
  | SyntaxError
  | TypeError
  | AttributeError

subsection \<open>\<open>str.strip\<close>, \<open>str.replace\<close>, \<open>str(int)\<close>, slices\<close>

text \<open>The code points for which \<open>str.isspace\<close> holds; \<open>strip()\<close> removes them at both ends.\<close>

definition isspace :: "nat \<Rightarrow> bool" where
  "isspace c = ((9 \<le> c \<and> c \<le> 13) \<or> (28 \<le> c \<and> c \<le> 32) \<or> c = 133 \<or> c = 160
     \<or> c = 5760 \<or> (8192 \<le> c \<and> c \<le> 8202) \<or> c = 8232 \<or> c = 8233 \<or> c = 8239
     \<or> c = 8287 \<or> c = 12288)"

definition strip :: "pystr \<Rightarrow> pystr" where
  "strip s = rev (dropWhile isspace (rev (dropWhile isspace s)))"

text \<open>A text that starts and ends with a character that is not whitespace.\<close>

definition trimmed :: "pystr \<Rightarrow> bool" where
  "trimmed s = (s \<noteq> [] \<and> \<not> isspace (hd s) \<and> \<not> isspace (last s))"

text \<open>
  \<open>s.replace(old, new)\<close>: the occurrences of \<open>old\<close> are found from the left and do
  not overlap. With an empty \<open>old\<close>, \<open>new\<close> is put before every character and at the end.
\<close>

fun replace :: "pystr \<Rightarrow> pystr \<Rightarrow> pystr \<Rightarrow> pystr" where
  "replace old new [] = (if old = [] then new else [])"
| "replace old new (c # cs) =
     (if old = [] then new @ c # replace old new cs
      else if prefix old (c # cs) then new @ replace old new (drop (length old - 1) cs)
      else c # replace old new cs)"

text \<open>\<open>str(n)\<close> for an integer: its decimal digits, with a minus sign when negative.\<close>

fun str_nat :: "nat \<Rightarrow> pystr" where
  "str_nat n = (if n < 10 then [48 + n] else str_nat (n div 10) @ [48 + n mod 10])"

declare str_nat.simps [simp del]

definition str_int :: "int \<Rightarrow> pystr" where
  "str_int i = (if i < 0 then 45 # str_nat (nat (- i)) else str_nat (nat i))"

text \<open>
  The slice \<open>xs[i:]\<close>: a negative start counts from the end, and the start is clamped
  to the list. So \<open>xs[-n:]\<close> is the last \<open>n\<close> elements for \<open>n > 0\<close>, and
  \<open>xs[-0:]\<close> is \<open>xs[0:]\<close>, the whole list.
\<close>

definition slice_from :: "int \<Rightarrow> 'a list \<Rightarrow> 'a list" where
  "slice_from i xs =
     (let n = int (length xs);
          j = (if i < 0 then max (i + n) 0 else min i n)
      in drop (nat j) xs)"

section \<open>The calculator engine (ti84\_engine.py)\<close>

record EvaluationResult =
  expression :: pystr
  value_str :: pystr

record TI84Engine =
  history_limit :: int
  memory :: pyfloat
  history :: "EvaluationResult list"

text \<open>The engine as the dataclass builds it by default: limit 20, memory 0.0, no history.\<close>

definition new_engine :: TI84Engine where
  "new_engine = \<lparr>history_limit = 20, memory = Fin 0, history = []\<rparr>"

text \<open>
  \<open>_append_history\<close>: append, then keep \<open>history[-history_limit:]\<close> when the list is
  longer than the limit.
\<close>

definition append_history :: "TI84Engine \<Rightarrow> pystr \<Rightarrow> pystr \<Rightarrow> TI84Engine" where
  "append_history st expr v =
     (let h = history st @ [\<lparr>expression = expr, value_str = v\<rparr>]
      in if int (length h) > history_limit st
         then st\<lparr>history := slice_from (- history_limit st) h\<rparr>
         else st\<lparr>history := h\<rparr>)"

subsection \<open>What the engine takes from Python\<close>

text \<open>
  The values an evaluated expression can have here: an \<open>int\<close> (unbounded), a
  \<open>float\<close>, one of the functions the engine puts into the namespace, the
  \<open>math\<close> module, or \<open>None\<close>.
\<close>

datatype pyfun =
    math_sin | math_cos | math_tan | math_asin | math_acos | math_atan
  | math_log10 | math_sqrt | math_factorial | math_fabs | math_exp | math_log
  | builtin_abs | builtin_pow

datatype pyval = PyInt int | PyFloat pyfloat | PyFun pyfun | PyModule | PyNone

type_synonym namespace = "pystr \<rightharpoonup> pyval"

text \<open>
  The engine calls into Python for four things, which are parameters of the model:
  \<^item> \<open>py_eval e ns st\<close> is \<open>eval(e, {"__builtins__": {}}, ns)\<close>, called by the engine
    \<open>st\<close>: the value of the expression or the exception it raises, with no builtin
    name in scope, and the engine as the evaluation leaves it. The text runs as
    Python code inside \<open>_safe_eval\<close>, and the objects in the namespace are not
    closed: from the builtin functions \<open>abs\<close> and \<open>pow\<close> the attribute \<open>__self__\<close>
    is the module of the builtins, which imports \<open>sys\<close>, whose frames hold \<open>self\<close>.
    So an evaluation can change the engine's memory and history before it returns
    or raises, and \<open>eval\<close> is not a function of the text and the namespace alone.
    The result is \<open>None\<close> when the model has none (so for the next two);
  \<^item> \<open>py_float v\<close> is \<open>float(v)\<close>;
  \<^item> \<open>format_10g x\<close> is the format \<open>f"{x:.10g}"\<close>, ten significant digits;
  \<^item> \<open>isalnum\<close> and \<open>isdecimal\<close> are the Unicode database's classes of the code points
    from 128 on (\<open>str.isalnum\<close>, \<open>str.isdecimal\<close>), which decide \<open>\w\<close>, \<open>\b\<close> and
    \<open>\d\<close> in a regular expression. For ASCII the classes are written out below.
\<close>

record python =
  py_eval :: "pystr \<Rightarrow> namespace \<Rightarrow> TI84Engine \<Rightarrow> ((exn + pyval) \<times> TI84Engine) option"
  py_float :: "pyval \<Rightarrow> (exn + pyfloat) option"
  format_10g :: "pyfloat \<Rightarrow> pystr option"
  isalnum :: "nat \<Rightarrow> bool"
  isdecimal :: "nat \<Rightarrow> bool"

definition ascii_letter :: "nat \<Rightarrow> bool" where
  "ascii_letter c = ((65 \<le> c \<and> c \<le> 90) \<or> (97 \<le> c \<and> c \<le> 122))"

definition ascii_digit :: "nat \<Rightarrow> bool" where
  "ascii_digit c = (48 \<le> c \<and> c \<le> 57)"

definition re_digit :: "python \<Rightarrow> nat \<Rightarrow> bool" where
  "re_digit py c = (if c < 128 then ascii_digit c else isdecimal py c)"

definition re_word :: "python \<Rightarrow> nat \<Rightarrow> bool" where
  "re_word py c = (if c < 128 then ascii_letter c \<or> ascii_digit c \<or> c = 95 else isalnum py c)"

subsection \<open>The regular expression of the factorial rewriting\<close>

text \<open>
  A backtracking matcher: from a start index in the subject, a pattern gives the end
  indices of its matches in the order in which the engine of \<open>re\<close> tries them, so the
  head of the list is the match found. The subject is the text from the
  position where the search stands, and \<open>prev\<close> is the character before it (for \<open>\b\<close>).
  A greedy repetition of a character class tries the longest run first.
\<close>

type_synonym matcher = "nat option \<Rightarrow> pystr \<Rightarrow> nat \<Rightarrow> nat list"

definition m_class :: "(nat \<Rightarrow> bool) \<Rightarrow> matcher" where
  "m_class P prev s i = (if i < length s \<and> P (s ! i) then [Suc i] else [])"

definition m_star :: "(nat \<Rightarrow> bool) \<Rightarrow> matcher" where
  "m_star P prev s i = rev (map (\<lambda>k. i + k) [0 ..< Suc (length (takeWhile P (drop i s)))])"

definition m_plus :: "(nat \<Rightarrow> bool) \<Rightarrow> matcher" where
  "m_plus P prev s i = rev (map (\<lambda>k. i + k) [1 ..< Suc (length (takeWhile P (drop i s)))])"

definition m_seq :: "matcher \<Rightarrow> matcher \<Rightarrow> matcher" where
  "m_seq a b prev s i = concat (map (b prev s) (a prev s i))"

definition m_alt :: "matcher \<Rightarrow> matcher \<Rightarrow> matcher" where
  "m_alt a b prev s i = a prev s i @ b prev s i"

definition m_opt :: "matcher \<Rightarrow> matcher" where
  "m_opt a prev s i = a prev s i @ [i]"

definition m_word_boundary :: "python \<Rightarrow> matcher" where
  "m_word_boundary py prev s i =
     (let w_before = (if i = 0 then (case prev of None \<Rightarrow> False | Some c \<Rightarrow> re_word py c)
                    else re_word py (s ! (i - 1)));
          w_after = (i < length s \<and> re_word py (s ! i))
      in if w_before \<noteq> w_after then [i] else [])"

text \<open>
  The pattern \<^verbatim>\<open>(?P<target>(?:\([^()]*\)|\b[a-zA-Z_]\w*\b|\d+(?:\.\d+)?))!\<close>,
  part by part. Code points: \<open>(\<close> 40, \<open>)\<close> 41, \<open>.\<close> 46, \<open>_\<close> 95, \<open>!\<close> 33.
\<close>

definition target_pattern :: "python \<Rightarrow> matcher" where
  "target_pattern py =
     m_alt (m_seq (m_class (\<lambda>c. c = 40))
              (m_seq (m_star (\<lambda>c. c \<noteq> 40 \<and> c \<noteq> 41)) (m_class (\<lambda>c. c = 41))))
    (m_alt (m_seq (m_word_boundary py)
              (m_seq (m_class (\<lambda>c. ascii_letter c \<or> c = 95))
                 (m_seq (m_star (re_word py)) (m_word_boundary py))))
           (m_seq (m_plus (re_digit py))
              (m_opt (m_seq (m_class (\<lambda>c. c = 46)) (m_plus (re_digit py))))))"

definition factorial_pattern :: "python \<Rightarrow> matcher" where
  "factorial_pattern py = m_seq (target_pattern py) (m_class (\<lambda>c. c = 33))"

definition re_match :: "python \<Rightarrow> nat option \<Rightarrow> pystr \<Rightarrow> nat option" where
  "re_match py prev s = (case factorial_pattern py prev s 0 of [] \<Rightarrow> None | n # _ \<Rightarrow> Some n)"

text \<open>
  \<open>re.sub\<close> with that pattern and the replacement \<open>math.factorial(int(target))\<close>: the
  search goes from left to right; at a match of \<open>n\<close> characters (the target and the
  \<open>!\<close>, so \<open>n\<close> is at least 2 and the rest starts \<open>n - 1\<close> characters after the first)
  the replacement is written and the search goes on behind the match; where there is
  no match, the character is copied.
\<close>

fun re_sub_factorial :: "python \<Rightarrow> nat option \<Rightarrow> pystr \<Rightarrow> pystr" where
  "re_sub_factorial py prev [] = []"
| "re_sub_factorial py prev (c # cs) =
     (case re_match py prev (c # cs) of
        Some n \<Rightarrow>
          u ''math.factorial(int('' @ take (n - 1) (c # cs) @ u ''))''
          @ re_sub_factorial py (Some ((c # cs) ! (n - 1))) (drop (n - 1) cs)
      | None \<Rightarrow> c # re_sub_factorial py (Some c) cs)"

subsection \<open>The engine's methods\<close>

text \<open>
  \<open>prepare_expression\<close>: strip, fail on the empty string, apply the five textual
  replacements in their order (\<open>Ans\<close> first, with the value of the last history entry
  or \<open>0\<close>), then rewrite the factorials. Code points: the multiplication sign 215, the
  division sign 247, the root sign 8730.
\<close>

definition replacements :: "TI84Engine \<Rightarrow> (pystr \<times> pystr) list" where
  "replacements st =
     [(u ''Ans'', if history st \<noteq> [] then value_str (last (history st)) else u ''0''),
      (u ''^'', u ''**''),
      ([215], u ''*''),
      ([247], u ''/''),
      ([8730], u ''sqrt'')]"

definition prepare_expression :: "python \<Rightarrow> TI84Engine \<Rightarrow> pystr \<Rightarrow> exn + pystr" where
  "prepare_expression py st expr0 =
     (let expr = strip expr0
      in if expr = [] then Inl (TI84Error (u ''ERROR: SYNTAX''))
         else Inr (re_sub_factorial py None
                     (foldl (\<lambda>e (old, new). replace old new e) expr (replacements st))))"

text \<open>
  The namespace of \<open>_safe_eval\<close>: the functions, then the constants, then \<open>math\<close> and
  \<open>M\<close>, then the extra context; a later binding of a name replaces an earlier one.
  \<open>math.pi\<close> and \<open>math.e\<close> are the doubles nearest to the two numbers; the Greek
  letter pi is the code point 960.
\<close>

definition engine_functions :: "(pystr \<times> pyval) list" where
  "engine_functions =
     [(u ''sin'', PyFun math_sin), (u ''cos'', PyFun math_cos), (u ''tan'', PyFun math_tan),
      (u ''asin'', PyFun math_asin), (u ''acos'', PyFun math_acos), (u ''atan'', PyFun math_atan),
      (u ''log10'', PyFun math_log10), (u ''sqrt'', PyFun math_sqrt),
      (u ''factorial'', PyFun math_factorial), (u ''fabs'', PyFun math_fabs),
      (u ''exp'', PyFun math_exp),
      (u ''ln'', PyFun math_log), (u ''log'', PyFun math_log10),
      (u ''abs'', PyFun builtin_abs), (u ''pow'', PyFun builtin_pow)]"

definition math_pi :: pyfloat where
  "math_pi = Fin (884279719003555 / 281474976710656)"

definition math_e :: pyfloat where
  "math_e = Fin (6121026514868073 / 2251799813685248)"

definition engine_constants :: "(pystr \<times> pyval) list" where
  "engine_constants = [(u ''pi'', PyFloat math_pi), ([960], PyFloat math_pi), (u ''e'', PyFloat math_e)]"

definition allowed_names :: "TI84Engine \<Rightarrow> namespace \<Rightarrow> namespace" where
  "allowed_names st extra_context =
     ((map_of engine_functions ++ map_of engine_constants)
        (u ''math'' \<mapsto> PyModule, u ''M'' \<mapsto> PyFloat (memory st))) ++ extra_context"

text \<open>
  \<open>_safe_eval\<close>: only \<open>NameError\<close> is turned into the calculator's error; every other
  exception of \<open>eval\<close>, and every exception of \<open>float\<close>, leaves the method as it is.
  The method returns with the engine as \<open>eval\<close> left it.
\<close>

definition safe_eval ::
  "python \<Rightarrow> TI84Engine \<Rightarrow> pystr \<Rightarrow> namespace \<Rightarrow> ((exn + pyfloat) \<times> TI84Engine) option" where
  "safe_eval py st expr extra_context =
     (case py_eval py expr (allowed_names st extra_context) st of
        None \<Rightarrow> None
      | Some (Inl NameError, st') \<Rightarrow> Some (Inl (TI84Error (u ''ERROR: SYNTAX'')), st')
      | Some (Inl e, st') \<Rightarrow> Some (Inl e, st')
      | Some (Inr result, st') \<Rightarrow>
          (case py_float py result of None \<Rightarrow> None | Some r \<Rightarrow> Some (r, st')))"

text \<open>
  \<open>_format_result\<close>. The literal \<open>1e-10\<close> is the double nearest to it, and \<open>1e4\<close> is
  exact. \<open>int(value)\<close> truncates towards zero and is only reached for a finite value
  below \<open>1e4\<close> in magnitude.
\<close>

definition float_1e_minus_10 :: pyfloat where
  "float_1e_minus_10 = Fin (7737125245533627 / 77371252455336267181195264)"

definition trunc :: "rat \<Rightarrow> int" where
  "trunc r = (if 0 \<le> r then \<lfloor>r\<rfloor> else \<lceil>r\<rceil>)"

definition format_result :: "python \<Rightarrow> pyfloat \<Rightarrow> pystr option" where
  "format_result py value0 =
     (let v = (if float_lt (float_abs value0) float_1e_minus_10 then Fin 0 else value0)
      in case v of
           Fin r \<Rightarrow>
             if float_lt (float_abs v) (Fin 10000) \<and> r = of_int (trunc r)
             then Some (str_int (trunc r))
             else format_10g py v
         | _ \<Rightarrow> format_10g py v)"

text \<open>
  \<open>evaluate\<close> returns the result or the exception raised, and the engine after the
  call. \<open>prepare_expression\<close> is called outside the \<open>try\<close>; the handlers map
  the exceptions of \<open>_safe_eval\<close> to the four messages, the last one catching every
  other exception. No handler puts the engine back: after an error it is as
  \<open>_safe_eval\<close> left it, and a result is appended to the history as it is then.
\<close>

definition evaluate ::
  "python \<Rightarrow> TI84Engine \<Rightarrow> pystr \<Rightarrow> ((exn + EvaluationResult) \<times> TI84Engine) option" where
  "evaluate py st expr =
     (case prepare_expression py st expr of
        Inl e \<Rightarrow> Some (Inl e, st)
      | Inr cleaned \<Rightarrow>
          (case safe_eval py st cleaned Map.empty of
             None \<Rightarrow> None
           | Some (Inl ZeroDivisionError, st') \<Rightarrow>
               Some (Inl (TI84Error (u ''ERROR: DIVIDE BY 0'')), st')
           | Some (Inl ValueError, st') \<Rightarrow> Some (Inl (TI84Error (u ''ERROR: MATH'')), st')
           | Some (Inl OverflowError, st') \<Rightarrow> Some (Inl (TI84Error (u ''ERROR: OVERFLOW'')), st')
           | Some (Inl _, st') \<Rightarrow> Some (Inl (TI84Error (u ''ERROR: SYNTAX'')), st')
           | Some (Inr result, st') \<Rightarrow>
               (case format_result py result of
                  None \<Rightarrow> None
                | Some result_str \<Rightarrow>
                    Some (Inr \<lparr>expression = expr, value_str = result_str\<rparr>,
                          append_history st' expr result_str))))"

text \<open>
  \<open>evaluate_function\<close> binds \<open>x\<close> and has no handler of its own; it does not touch
  the history itself.
\<close>

definition evaluate_function ::
  "python \<Rightarrow> TI84Engine \<Rightarrow> pystr \<Rightarrow> pyfloat \<Rightarrow> ((exn + pyfloat) \<times> TI84Engine) option" where
  "evaluate_function py st expr x_value =
     (case prepare_expression py st expr of
        Inl e \<Rightarrow> Some (Inl e, st)
      | Inr cleaned \<Rightarrow> safe_eval py st cleaned [u ''x'' \<mapsto> PyFloat x_value])"

section \<open>The graphing engine (graphing\_engine.py)\<close>

record GraphWindow =
  xmin :: pyfloat
  xmax :: pyfloat
  ymin :: pyfloat
  ymax :: pyfloat

record GraphingEngine =
  calculator :: TI84Engine
  equations :: "pystr \<rightharpoonup> pystr"
  window :: GraphWindow

definition new_graphing_engine :: "TI84Engine \<Rightarrow> GraphingEngine" where
  "new_graphing_engine c =
     \<lparr>calculator = c, equations = Map.empty,
      window = \<lparr>xmin = Fin (- 10), xmax = Fin 10, ymin = Fin (- 10), ymax = Fin 10\<rparr>\<rparr>"

text \<open>
  \<open>set_equation\<close>: a stripped expression that is not empty is stored under the label;
  otherwise \<open>pop(label, None)\<close> removes the label, and does nothing when it is absent.
\<close>

definition set_equation :: "GraphingEngine \<Rightarrow> pystr \<Rightarrow> pystr \<Rightarrow> GraphingEngine" where
  "set_equation g label expr =
     (let clean = strip expr
      in if clean \<noteq> [] then g\<lparr>equations := (equations g)(label \<mapsto> clean)\<rparr>
         else g\<lparr>equations := (equations g)(label := None)\<rparr>)"

text \<open>
  \<open>set_window\<close> returns the exception it raises, or nothing, together with the engine
  after the call.
\<close>

definition set_window ::
  "GraphingEngine \<Rightarrow> pyfloat \<Rightarrow> pyfloat \<Rightarrow> pyfloat \<Rightarrow> pyfloat \<Rightarrow> (exn + unit) \<times> GraphingEngine" where
  "set_window g x0 x1 y0 y1 =
     (if float_ge x0 x1 \<or> float_ge y0 y1 then (Inl (TI84Error (u ''ERROR: WINDOW'')), g)
      else (Inr (), g\<lparr>window := \<lparr>xmin = x0, xmax = x1, ymin = y0, ymax = y1\<rparr>\<rparr>))"

text \<open>
  \<open>_evaluate_series\<close>: the loop over the domain values with its list of results. The
  handler catches \<open>TI84Error\<close> only, and puts not-a-number at that point; any other
  exception ends the loop and leaves the method. The calculator of the graphing
  engine is the engine of each evaluation.
\<close>

fun evaluate_series_loop ::
  "python \<Rightarrow> GraphingEngine \<Rightarrow> pystr \<Rightarrow> pyfloat list \<Rightarrow> pyfloat list
     \<Rightarrow> ((exn + pyfloat list) \<times> GraphingEngine) option" where
  "evaluate_series_loop py g expr [] values = Some (Inr values, g)"
| "evaluate_series_loop py g expr (x_value # xs) values =
     (case evaluate_function py (calculator g) expr x_value of
        None \<Rightarrow> None
      | Some (Inl (TI84Error m), c) \<Rightarrow>
          evaluate_series_loop py (g\<lparr>calculator := c\<rparr>) expr xs (values @ [NaN])
      | Some (Inl e, c) \<Rightarrow> Some (Inl e, g\<lparr>calculator := c\<rparr>)
      | Some (Inr y_value, c) \<Rightarrow>
          evaluate_series_loop py (g\<lparr>calculator := c\<rparr>) expr xs (values @ [y_value]))"

definition evaluate_series ::
  "python \<Rightarrow> GraphingEngine \<Rightarrow> pystr \<Rightarrow> pyfloat list
     \<Rightarrow> ((exn + pyfloat list) \<times> GraphingEngine) option" where
  "evaluate_series py g expr xs = evaluate_series_loop py g expr xs []"

section \<open>A Python for the arithmetic of integers\<close>

text \<open>
  The theorems about single expressions need the result of \<open>eval\<close>. This section gives
  it for a part of Python's expressions: decimal integer literals, names, attributes
  of \<open>math\<close>, calls, parentheses, \<open>+ - * / **\<close> and the unary signs, with Python's
  precedence, its order of evaluation and its exact integer arithmetic. A true
  division is covered where the quotient is an integer a double holds exactly, and
  where the divisor is zero. Everything else (other literals, keywords, tuples,
  rounding float arithmetic, the transcendental functions, every attribute but
  those of \<open>math\<close> that the engine names) has no result here: \<open>None\<close>, never a
  made-up value. An expression of this part cannot reach the engine, so its
  evaluation leaves the engine as it is.
\<close>

datatype token =
    T_Num int | T_Name pystr
  | T_Plus | T_Minus | T_Star | T_Slash | T_Pow
  | T_LPar | T_RPar | T_Comma | T_Dot

definition ident_start :: "nat \<Rightarrow> bool" where
  "ident_start c = (ascii_letter c \<or> c = 95)"

definition ident_char :: "nat \<Rightarrow> bool" where
  "ident_char c = (ascii_letter c \<or> ascii_digit c \<or> c = 95)"

definition kwlist :: "string list" where
  "kwlist =
     [''False'', ''None'', ''True'', ''and'', ''as'', ''assert'', ''async'', ''await'',
      ''break'', ''class'', ''continue'', ''def'', ''del'', ''elif'', ''else'', ''except'',
      ''finally'', ''for'', ''from'', ''global'', ''if'', ''import'', ''in'', ''is'',
      ''lambda'', ''nonlocal'', ''not'', ''or'', ''pass'', ''raise'', ''return'', ''try'',
      ''while'', ''with'', ''yield'']"

text \<open>
  Two more names are not looked up in the namespace: \<open>__debug__\<close> is a constant of
  the compiler, and \<open>__builtins__\<close> is the one key of the globals that \<open>eval\<close> is
  given. Like the keywords, they are not covered.
\<close>

definition special_names :: "string list" where
  "special_names = [''__debug__'', ''__builtins__'']"

definition int_of_digits :: "pystr \<Rightarrow> int" where
  "int_of_digits ds = foldl (\<lambda>a d. 10 * a + int (d - 48)) 0 ds"

definition cons_token :: "token \<Rightarrow> token list option \<Rightarrow> token list option" where
  "cons_token t r = map_option ((#) t) r"

text \<open>
  The tokens. A digit run followed by a letter, an underscore, a point or a code
  point from 128 on is another kind of literal, as is one with a leading zero; a name
  followed by a code point from 128 on may go on; a point not followed by a name
  starts a float literal or an ellipsis; \<open>//\<close> is the floor division. None of these
  is covered, nor is a literal of more than 1000 digits (Python limits their number). Code points: space 32, \<open>(\<close> 40, \<open>)\<close> 41, \<open>*\<close> 42, \<open>+\<close> 43,
  \<open>,\<close> 44, \<open>-\<close> 45, \<open>.\<close> 46, \<open>/\<close> 47.
\<close>

function tokenize :: "pystr \<Rightarrow> token list option" where
  "tokenize [] = Some []"
| "tokenize (c # cs) =
     (if c = 32 then tokenize cs
      else if ascii_digit c then
        (let ds = c # takeWhile ascii_digit cs; rest = dropWhile ascii_digit cs
         in if (rest \<noteq> [] \<and> (ident_char (hd rest) \<or> hd rest = 46 \<or> 128 \<le> hd rest))
               \<or> (c = 48 \<and> cs \<noteq> rest) \<or> 1000 < length ds
            then None
            else cons_token (T_Num (int_of_digits ds)) (tokenize rest))
      else if ident_start c then
        (let name = c # takeWhile ident_char cs; rest = dropWhile ident_char cs
         in if (rest \<noteq> [] \<and> 128 \<le> hd rest) \<or> name \<in> set (map u (kwlist @ special_names))
            then None
            else cons_token (T_Name name) (tokenize rest))
      else if c = 42 then
        (if cs \<noteq> [] \<and> hd cs = 42 then cons_token T_Pow (tokenize (tl cs))
         else cons_token T_Star (tokenize cs))
      else if c = 47 then
        (if cs \<noteq> [] \<and> hd cs = 47 then None else cons_token T_Slash (tokenize cs))
      else if c = 46 then
        (if cs \<noteq> [] \<and> (ident_start (hd cs) \<or> hd cs = 32) then cons_token T_Dot (tokenize cs)
         else None)
      else if c = 43 then cons_token T_Plus (tokenize cs)
      else if c = 45 then cons_token T_Minus (tokenize cs)
      else if c = 40 then cons_token T_LPar (tokenize cs)
      else if c = 41 then cons_token T_RPar (tokenize cs)
      else if c = 44 then cons_token T_Comma (tokenize cs)
      else None)"
  by pat_completeness auto
termination
  by (relation "measure length") (auto simp: le_imp_less_Suc length_dropWhile_le)

text \<open>The syntax tree, with the names of Python's \<open>ast\<close> module.\<close>

datatype binop = Add | Sub | Mult | Div | PowOp

datatype unaryop = UAdd | USub

datatype expr =
    Num int
  | Name pystr
  | Attribute expr pystr
  | Call expr "expr list"
  | BinOp expr binop expr
  | UnaryOp unaryop expr

text \<open>
  The parser follows Python's grammar:
  \<^verbatim>\<open>
  sum:     sum ('+'|'-') term | term
  term:    term ('*'|'/') factor | factor
  factor:  ('+'|'-') factor | power
  power:   primary ['**' factor]
  primary: primary '.' NAME | primary '(' [args] ')' | atom
  atom:    NAME | NUMBER | '(' sum ')'
  args:    sum (',' sum)*
  \<close>
  A parser takes the tokens and gives the tree and the tokens left. A rule that
  contains a whole expression again (in parentheses, as an argument) takes the
  parser for it as \<open>ps\<close>. The natural number bounds the steps of a rule that repeats,
  and in \<open>parse_sum\<close> the depth of the nesting; \<open>parse\<close> sets it from the number of
  tokens. A token list this grammar does not derive has no result: Python's grammar
  is larger (tuples, starred arguments, a comma before the closing parenthesis).
  Nor has a list of more than 100 tokens: Python bounds the nesting of an
  expression and raises errors of its own beyond.
\<close>

type_synonym parser = "token list \<Rightarrow> (expr \<times> token list) option"

definition starts :: "token \<Rightarrow> token list \<Rightarrow> bool" where
  "starts t ts = (ts \<noteq> [] \<and> hd ts = t)"

definition name_of :: "token list \<Rightarrow> pystr option" where
  "name_of ts = (case ts of T_Name s # _ \<Rightarrow> Some s | _ \<Rightarrow> None)"

definition num_of :: "token list \<Rightarrow> int option" where
  "num_of ts = (case ts of T_Num k # _ \<Rightarrow> Some k | _ \<Rightarrow> None)"

definition parse_atom :: "parser \<Rightarrow> parser" where
  "parse_atom ps ts =
     (case num_of ts of Some k \<Rightarrow> Some (Num k, tl ts)
      | None \<Rightarrow>
          (case name_of ts of Some s \<Rightarrow> Some (Name s, tl ts)
           | None \<Rightarrow>
               if starts T_LPar ts then
                 (case ps (tl ts) of None \<Rightarrow> None
                  | Some (e, r) \<Rightarrow> if starts T_RPar r then Some (e, tl r) else None)
               else None))"

fun parse_args_rest :: "nat \<Rightarrow> parser \<Rightarrow> token list \<Rightarrow> (expr list \<times> token list) option" where
  "parse_args_rest 0 ps ts = None"
| "parse_args_rest (Suc n) ps ts =
     (if starts T_RPar ts then Some ([], tl ts)
      else if starts T_Comma ts then
        (case ps (tl ts) of None \<Rightarrow> None
         | Some (e, r) \<Rightarrow>
             (case parse_args_rest n ps r of None \<Rightarrow> None
              | Some (es, r') \<Rightarrow> Some (e # es, r')))
      else None)"

fun parse_primary_rest :: "nat \<Rightarrow> parser \<Rightarrow> expr \<Rightarrow> parser" where
  "parse_primary_rest 0 ps a ts = None"
| "parse_primary_rest (Suc n) ps a ts =
     (if starts T_Dot ts then
        (case name_of (tl ts) of None \<Rightarrow> None
         | Some s \<Rightarrow> parse_primary_rest n ps (Attribute a s) (tl (tl ts)))
      else if starts T_LPar ts then
        (if starts T_RPar (tl ts) then parse_primary_rest n ps (Call a []) (tl (tl ts))
         else
           (case ps (tl ts) of None \<Rightarrow> None
            | Some (e, r) \<Rightarrow>
                (case parse_args_rest n ps r of None \<Rightarrow> None
                 | Some (es, r') \<Rightarrow> parse_primary_rest n ps (Call a (e # es)) r')))
      else Some (a, ts))"

fun parse_factor :: "nat \<Rightarrow> parser \<Rightarrow> parser" where
  "parse_factor 0 ps ts = None"
| "parse_factor (Suc n) ps ts =
     (if starts T_Plus ts then
        (case parse_factor n ps (tl ts) of None \<Rightarrow> None
         | Some (e, r) \<Rightarrow> Some (UnaryOp UAdd e, r))
      else if starts T_Minus ts then
        (case parse_factor n ps (tl ts) of None \<Rightarrow> None
         | Some (e, r) \<Rightarrow> Some (UnaryOp USub e, r))
      else
        (case parse_atom ps ts of None \<Rightarrow> None
         | Some (a, r) \<Rightarrow>
             (case parse_primary_rest n ps a r of None \<Rightarrow> None
              | Some (b, r') \<Rightarrow>
                  if starts T_Pow r' then
                    (case parse_factor n ps (tl r') of None \<Rightarrow> None
                     | Some (e, r'') \<Rightarrow> Some (BinOp b PowOp e, r''))
                  else Some (b, r'))))"

fun parse_term_rest :: "nat \<Rightarrow> parser \<Rightarrow> expr \<Rightarrow> parser" where
  "parse_term_rest 0 ps l ts = None"
| "parse_term_rest (Suc n) ps l ts =
     (if starts T_Star ts then
        (case parse_factor n ps (tl ts) of None \<Rightarrow> None
         | Some (e, r) \<Rightarrow> parse_term_rest n ps (BinOp l Mult e) r)
      else if starts T_Slash ts then
        (case parse_factor n ps (tl ts) of None \<Rightarrow> None
         | Some (e, r) \<Rightarrow> parse_term_rest n ps (BinOp l Div e) r)
      else Some (l, ts))"

definition parse_term :: "nat \<Rightarrow> parser \<Rightarrow> parser" where
  "parse_term n ps ts =
     (case parse_factor n ps ts of None \<Rightarrow> None | Some (l, r) \<Rightarrow> parse_term_rest n ps l r)"

fun parse_sum_rest :: "nat \<Rightarrow> parser \<Rightarrow> expr \<Rightarrow> parser" where
  "parse_sum_rest 0 ps l ts = None"
| "parse_sum_rest (Suc n) ps l ts =
     (if starts T_Plus ts then
        (case parse_term n ps (tl ts) of None \<Rightarrow> None
         | Some (e, r) \<Rightarrow> parse_sum_rest n ps (BinOp l Add e) r)
      else if starts T_Minus ts then
        (case parse_term n ps (tl ts) of None \<Rightarrow> None
         | Some (e, r) \<Rightarrow> parse_sum_rest n ps (BinOp l Sub e) r)
      else Some (l, ts))"

fun parse_sum :: "nat \<Rightarrow> parser" where
  "parse_sum 0 ts = None"
| "parse_sum (Suc n) ts =
     (case parse_term (Suc n) (parse_sum n) ts of None \<Rightarrow> None
      | Some (l, r) \<Rightarrow> parse_sum_rest (Suc n) (parse_sum n) l r)"

definition parse :: "token list \<Rightarrow> expr option" where
  "parse ts =
     (if 100 < length ts then None
      else case parse_sum (Suc (length ts)) ts of
             None \<Rightarrow> None
           | Some (e, r) \<Rightarrow> if r = [] then Some e else None)"

text \<open>
  The evaluation. For two integers \<open>+\<close>, \<open>-\<close>, \<open>*\<close> and \<open>**\<close> with an exponent that
  is not negative are exact (an exponent, and the argument of a factorial, up to
  10000 is covered: a larger one may exhaust the memory). \<open>/\<close> raises \<open>ZeroDivisionError\<close> for a zero divisor,
  integer or float, whatever the dividend; for two integers whose quotient is an
  integer of magnitude up to \<open>2 ^ 53\<close> the quotient is that float. A function or
  the module as an operand is a \<open>TypeError\<close>. Other arithmetic with a float would
  round and has no result here.
\<close>

definition is_number :: "pyval \<Rightarrow> bool" where
  "is_number v = (case v of PyInt _ \<Rightarrow> True | PyFloat _ \<Rightarrow> True | _ \<Rightarrow> False)"

definition is_zero :: "pyval \<Rightarrow> bool" where
  "is_zero v = (v = PyInt 0 \<or> v = PyFloat (Fin 0))"

definition int_pow :: "int \<Rightarrow> int \<Rightarrow> (exn + pyval) option" where
  "int_pow a b =
     (if 0 \<le> b \<and> b \<le> 10000 then Some (Inr (PyInt (a ^ nat b)))
      else if a = 0 \<and> b < 0 then Some (Inl ZeroDivisionError)
      else None)"

definition eval_binop :: "binop \<Rightarrow> pyval \<Rightarrow> pyval \<Rightarrow> (exn + pyval) option" where
  "eval_binop op l r =
     (if \<not> is_number l \<or> \<not> is_number r then Some (Inl TypeError)
      else if op = Div \<and> is_zero r then Some (Inl ZeroDivisionError)
      else case (l, r) of
        (PyInt a, PyInt b) \<Rightarrow>
          (case op of
             Add \<Rightarrow> Some (Inr (PyInt (a + b)))
           | Sub \<Rightarrow> Some (Inr (PyInt (a - b)))
           | Mult \<Rightarrow> Some (Inr (PyInt (a * b)))
           | Div \<Rightarrow>
               if b dvd a \<and> \<bar>a div b\<bar> \<le> 2 ^ 53 then Some (Inr (PyFloat (Fin (of_int (a div b)))))
               else None
           | PowOp \<Rightarrow> int_pow a b)
      | _ \<Rightarrow> None)"

fun float_neg :: "pyfloat \<Rightarrow> pyfloat" where
  "float_neg (Fin a) = Fin (- a)"
| "float_neg PosInf = NegInf"
| "float_neg NegInf = PosInf"
| "float_neg NaN = NaN"

definition eval_unaryop :: "unaryop \<Rightarrow> pyval \<Rightarrow> (exn + pyval) option" where
  "eval_unaryop op v =
     (case v of
        PyInt a \<Rightarrow> Some (Inr (PyInt (case op of UAdd \<Rightarrow> a | USub \<Rightarrow> - a)))
      | PyFloat x \<Rightarrow> Some (Inr (PyFloat (case op of UAdd \<Rightarrow> x | USub \<Rightarrow> float_neg x)))
      | _ \<Rightarrow> Some (Inl TypeError))"

text \<open>
  The calls that stay within the integers, and \<open>fabs\<close> and \<open>abs\<close>, which do not round:
  \<open>math.factorial\<close> of an integer (a \<open>ValueError\<close> when it is negative), \<open>abs\<close>,
  \<open>math.fabs\<close>, \<open>pow\<close> with two integers. A number is not callable.
\<close>

definition call_function :: "pyfun \<Rightarrow> pyval list \<Rightarrow> (exn + pyval) option" where
  "call_function f args =
     (case (f, args) of
        (math_factorial, [PyInt n]) \<Rightarrow>
          if n < 0 then Some (Inl ValueError)
          else if n \<le> 10000 then Some (Inr (PyInt (fact (nat n))))
          else None
      | (builtin_abs, [PyInt n]) \<Rightarrow> Some (Inr (PyInt \<bar>n\<bar>))
      | (builtin_abs, [PyFloat x]) \<Rightarrow> Some (Inr (PyFloat (float_abs x)))
      | (math_fabs, [PyInt n]) \<Rightarrow>
          if \<bar>n\<bar> \<le> 2 ^ 53 then Some (Inr (PyFloat (Fin (of_int \<bar>n\<bar>)))) else None
      | (math_fabs, [PyFloat x]) \<Rightarrow> Some (Inr (PyFloat (float_abs x)))
      | (builtin_pow, [PyInt a, PyInt b]) \<Rightarrow> int_pow a b
      | _ \<Rightarrow> None)"

definition call_value :: "pyval \<Rightarrow> pyval list \<Rightarrow> (exn + pyval) option" where
  "call_value v args =
     (case v of PyFun f \<Rightarrow> call_function f args
      | PyModule \<Rightarrow> Some (Inl TypeError)
      | _ \<Rightarrow> Some (Inl TypeError))"

text \<open>The attributes of the \<open>math\<close> module that the engine uses by name.\<close>

definition math_module :: "(pystr \<times> pyval) list" where
  "math_module =
     [(u ''sin'', PyFun math_sin), (u ''cos'', PyFun math_cos), (u ''tan'', PyFun math_tan),
      (u ''asin'', PyFun math_asin), (u ''acos'', PyFun math_acos), (u ''atan'', PyFun math_atan),
      (u ''log10'', PyFun math_log10), (u ''sqrt'', PyFun math_sqrt),
      (u ''factorial'', PyFun math_factorial), (u ''fabs'', PyFun math_fabs),
      (u ''exp'', PyFun math_exp), (u ''log'', PyFun math_log),
      (u ''pi'', PyFloat math_pi), (u ''e'', PyFloat math_e)]"

definition get_attribute :: "pyval \<Rightarrow> pystr \<Rightarrow> (exn + pyval) option" where
  "get_attribute v a =
     (case v of PyModule \<Rightarrow> map_option Inr (map_of math_module a) | _ \<Rightarrow> None)"

text \<open>
  Python evaluates the operands from left to right, and in a call the function
  before the arguments; the first exception ends the evaluation. A name that the
  namespace does not bind raises \<open>NameError\<close>: the globals hold no builtin.
\<close>

fun eval_expr :: "namespace \<Rightarrow> expr \<Rightarrow> (exn + pyval) option"
and eval_args :: "namespace \<Rightarrow> expr list \<Rightarrow> (exn + pyval list) option" where
  "eval_expr ns (Num k) = Some (Inr (PyInt k))"
| "eval_expr ns (Name s) = (case ns s of None \<Rightarrow> Some (Inl NameError) | Some v \<Rightarrow> Some (Inr v))"
| "eval_expr ns (Attribute e a) =
     (case eval_expr ns e of None \<Rightarrow> None
      | Some (Inl x) \<Rightarrow> Some (Inl x)
      | Some (Inr v) \<Rightarrow> get_attribute v a)"
| "eval_expr ns (Call f es) =
     (case eval_expr ns f of None \<Rightarrow> None
      | Some (Inl x) \<Rightarrow> Some (Inl x)
      | Some (Inr fv) \<Rightarrow>
          (case eval_args ns es of None \<Rightarrow> None
           | Some (Inl x) \<Rightarrow> Some (Inl x)
           | Some (Inr vs) \<Rightarrow> call_value fv vs))"
| "eval_expr ns (BinOp l op r) =
     (case eval_expr ns l of None \<Rightarrow> None
      | Some (Inl x) \<Rightarrow> Some (Inl x)
      | Some (Inr lv) \<Rightarrow>
          (case eval_expr ns r of None \<Rightarrow> None
           | Some (Inl x) \<Rightarrow> Some (Inl x)
           | Some (Inr rv) \<Rightarrow> eval_binop op lv rv))"
| "eval_expr ns (UnaryOp op e) =
     (case eval_expr ns e of None \<Rightarrow> None
      | Some (Inl x) \<Rightarrow> Some (Inl x)
      | Some (Inr v) \<Rightarrow> eval_unaryop op v)"
| "eval_args ns [] = Some (Inr [])"
| "eval_args ns (e # es) =
     (case eval_expr ns e of None \<Rightarrow> None
      | Some (Inl x) \<Rightarrow> Some (Inl x)
      | Some (Inr v) \<Rightarrow>
          (case eval_args ns es of None \<Rightarrow> None
           | Some (Inl x) \<Rightarrow> Some (Inl x)
           | Some (Inr vs) \<Rightarrow> Some (Inr (v # vs))))"

definition eval_source :: "pystr \<Rightarrow> namespace \<Rightarrow> (exn + pyval) option" where
  "eval_source s ns =
     (case tokenize s of None \<Rightarrow> None
      | Some ts \<Rightarrow> (case parse ts of None \<Rightarrow> None | Some e \<Rightarrow> eval_expr ns e))"

text \<open>
  \<open>float(v)\<close>: a float is itself; an integer of magnitude up to \<open>2 ^ 53\<close> is that float
  exactly (a larger one would round, or overflow); a function, a module or \<open>None\<close>
  raises \<open>TypeError\<close>.
\<close>

definition float_of_value :: "pyval \<Rightarrow> (exn + pyfloat) option" where
  "float_of_value v =
     (case v of
        PyFloat x \<Rightarrow> Some (Inr x)
      | PyInt n \<Rightarrow> if \<bar>n\<bar> \<le> 2 ^ 53 then Some (Inr (Fin (of_int n))) else None
      | _ \<Rightarrow> Some (Inl TypeError))"

text \<open>
  The format \<open>.10g\<close> where no digit is rounded away: \<open>nan\<close>, \<open>inf\<close>, \<open>-inf\<close>, and a
  nonzero integer of fewer than eleven digits, which is written in full.
\<close>

definition format_10g_exact :: "pyfloat \<Rightarrow> pystr option" where
  "format_10g_exact x =
     (case x of
        NaN \<Rightarrow> Some (u ''nan'')
      | PosInf \<Rightarrow> Some (u ''inf'')
      | NegInf \<Rightarrow> Some (u ''-inf'')
      | Fin r \<Rightarrow>
          if r \<noteq> 0 \<and> r = of_int \<lfloor>r\<rfloor> \<and> \<bar>r\<bar> < 10000000000 then Some (str_int \<lfloor>r\<rfloor>) else None)"

text \<open>
  The classes of the code points from 128 to 1023 in the Unicode database (14.0): the
  letters and digits of Latin-1, the Latin extensions and Greek, among them the
  letter pi, and no decimal digit. The expressions evaluated below contain no code
  point from 1024 on, for which these tables say nothing.
\<close>

definition alnum_ranges :: "(nat \<times> nat) list" where
  "alnum_ranges =
     [(170, 170), (178, 179), (181, 181), (185, 186), (188, 190), (192, 214), (216, 246),
      (248, 705), (710, 721), (736, 740), (748, 748), (750, 750), (880, 884), (886, 887),
      (890, 893), (895, 895), (902, 902), (904, 906), (908, 908), (910, 929), (931, 1013),
      (1015, 1023)]"

definition int_python :: python where
  "int_python =
     \<lparr>py_eval = (\<lambda>e ns st. map_option (\<lambda>r. (r, st)) (eval_source e ns)),
      py_float = float_of_value,
      format_10g = format_10g_exact,
      isalnum = (\<lambda>c. list_ex (\<lambda>(lo, hi). lo \<le> c \<and> c \<le> hi) alnum_ranges),
      isdecimal = (\<lambda>c. False)\<rparr>"

section \<open>Evaluating the model\<close>

text \<open>The defining equations that a computation at a concrete input unfolds.\<close>

lemmas re_defs = re_match_def factorial_pattern_def target_pattern_def m_seq_def m_alt_def
  m_class_def m_star_def m_plus_def m_opt_def m_word_boundary_def re_word_def re_digit_def
  ascii_letter_def ascii_digit_def

lemmas prepare_defs = prepare_expression_def replacements_def strip_def isspace_def u_def

lemmas tokenize_defs = ident_start_def ident_char_def ascii_letter_def ascii_digit_def
  kwlist_def special_names_def cons_token_def int_of_digits_def u_def

lemmas parse_defs = parse_def starts_def name_of_def num_of_def parse_atom_def parse_term_def

lemmas eval_defs = eval_source_def eval_binop_def eval_unaryop_def call_value_def
  call_function_def get_attribute_def math_module_def is_number_def is_zero_def int_pow_def
  float_of_value_def format_10g_exact_def

lemmas engine_defs = evaluate_def evaluate_function_def safe_eval_def allowed_names_def
  engine_functions_def engine_constants_def format_result_def float_1e_minus_10_def
  trunc_def str_int_def append_history_def slice_from_def int_python_def new_engine_def

lemmas all_defs = engine_defs prepare_defs re_defs eval_defs tokenize_defs parse_defs
  str_nat.simps

section \<open>Strings\<close>

lemma u_inj [simp]: "u a = u b \<longleftrightarrow> a = b"
  unfolding u_def by (simp add: inj_map_eq_map inj_def)

lemma dropWhile_all_iff: "(\<forall>c\<in>set (dropWhile P xs). P c) \<longleftrightarrow> (\<forall>c\<in>set xs. P c)"
  by (induction xs) auto

lemma strip_empty_iff: "strip e = [] \<longleftrightarrow> (\<forall>c\<in>set e. isspace c)"
  by (simp add: strip_def dropWhile_eq_Nil_conv dropWhile_all_iff)

lemma rev_dropWhile_takeWhile: "rev (dropWhile P (rev xs)) @ rev (takeWhile P (rev xs)) = xs"
  using arg_cong [OF takeWhile_dropWhile_id [of P "rev xs"], of rev]
  by (simp only: rev_append rev_rev_ident)

lemma strip_middle:
  "dropWhile isspace e = strip e @ rev (takeWhile isspace (rev (dropWhile isspace e)))"
  unfolding strip_def by (rule rev_dropWhile_takeWhile [symmetric])

text \<open>\<open>strip\<close> takes whitespace, and only whitespace, from the two ends.\<close>

lemma strip_decomp:
  "\<exists>a b. e = a @ strip e @ b \<and> (\<forall>c\<in>set a. isspace c) \<and> (\<forall>c\<in>set b. isspace c)"
proof -
  let ?a = "takeWhile isspace e"
  let ?b = "rev (takeWhile isspace (rev (dropWhile isspace e)))"
  have "e = ?a @ dropWhile isspace e" by simp
  then have "e = ?a @ strip e @ ?b" using strip_middle [of e] by simp
  moreover have "\<forall>c\<in>set ?a. isspace c" by (auto dest: set_takeWhileD)
  moreover have "\<forall>c\<in>set ?b. isspace c" by (auto dest: set_takeWhileD)
  ultimately show ?thesis by blast
qed

lemma strip_ends:
  assumes ne: "strip e \<noteq> []"
  shows "\<not> isspace (hd (strip e)) \<and> \<not> isspace (last (strip e))"
proof -
  let ?m = "dropWhile isspace e"
  let ?r = "dropWhile isspace (rev ?m)"
  have r: "?r \<noteq> []" using ne by (simp add: strip_def)
  then have "\<not> isspace (hd ?r)" by (rule hd_dropWhile)
  then have l: "\<not> isspace (last (strip e))" using r by (simp add: strip_def last_rev)
  have m: "?m \<noteq> []"
  proof
    assume "?m = []"
    with r show False by simp
  qed
  then have hm: "\<not> isspace (hd ?m)" by (rule hd_dropWhile)
  have "hd ?m = hd (strip e @ rev (takeWhile isspace (rev ?m)))" using strip_middle [of e] by simp
  then have "hd ?m = hd (strip e)" using ne by simp
  then show ?thesis using hm l by simp
qed

lemma strip_id:
  assumes a: "s \<noteq> []" "\<not> isspace (hd s)" "\<not> isspace (last s)"
  shows "strip s = s"
proof -
  from a have 1: "dropWhile isspace s = s" by (cases s) auto
  have "rev s \<noteq> []" "\<not> isspace (hd (rev s))" using a by (auto simp: hd_rev)
  then have "dropWhile isspace (rev s) = rev s" by (cases "rev s") auto
  with 1 show ?thesis by (simp add: strip_def)
qed

section \<open>The equation slots\<close>

text \<open>
  C10. For every label, an expression that is empty or all whitespace removes the
  slot of the label, and leaves the engine as it is when the label has no slot; an
  expression with another character is stored stripped, and the stored text is not
  empty. So when no slot was empty before \<open>set_equation\<close>, none is after it.
\<close>

theorem set_equation_slots:
  "((\<forall>c\<in>set e. isspace c) \<longrightarrow>
       equations (set_equation g l e) = (equations g)(l := None)
     \<and> (equations g l = None \<longrightarrow> set_equation g l e = g))
 \<and> ((\<exists>c\<in>set e. \<not> isspace c) \<longrightarrow>
       equations (set_equation g l e) = (equations g)(l \<mapsto> strip e) \<and> strip e \<noteq> [])
 \<and> ((\<forall>k v. equations g k = Some v \<longrightarrow> v \<noteq> []) \<longrightarrow>
       (\<forall>k v. equations (set_equation g l e) k = Some v \<longrightarrow> v \<noteq> []))"
proof (intro conjI impI)
  assume "\<forall>c\<in>set e. isspace c"
  then have "strip e = []" by (simp add: strip_empty_iff)
  then show "equations (set_equation g l e) = (equations g)(l := None)"
    by (simp add: set_equation_def)
  assume "equations g l = None"
  then have "(equations g)(l := None) = equations g" by auto
  then show "set_equation g l e = g" using \<open>strip e = []\<close> by (simp add: set_equation_def)
next
  assume "\<exists>c\<in>set e. \<not> isspace c"
  then have ne: "strip e \<noteq> []" by (simp add: strip_empty_iff)
  then show "equations (set_equation g l e) = (equations g)(l \<mapsto> strip e)"
    by (simp add: set_equation_def)
  show "strip e \<noteq> []" by (rule ne)
next
  assume "\<forall>k v. equations g k = Some v \<longrightarrow> v \<noteq> []"
  then show "\<forall>k v. equations (set_equation g l e) k = Some v \<longrightarrow> v \<noteq> []"
    by (auto simp: set_equation_def Let_def split: if_splits)
qed

theorem set_equation_slots_witness:
  "list_all isspace (u ''  '')
   \<and> equations (set_equation ((new_graphing_engine new_engine)\<lparr>equations := [u ''Y1'' \<mapsto> u ''x'']\<rparr>)
        (u ''Y1'') (u ''  '')) = Map.empty
   \<and> set_equation (new_graphing_engine new_engine) (u ''Y1'') (u ''  '')
        = new_graphing_engine new_engine
   \<and> list_ex (\<lambda>c. \<not> isspace c) (u '' x+1 '')
   \<and> equations (set_equation (new_graphing_engine new_engine) (u ''Y1'') (u '' x+1 ''))
        = [u ''Y1'' \<mapsto> u ''x+1'']"
proof -
  let ?g = "new_graphing_engine new_engine"
  have blank: "\<forall>c\<in>set (u ''  ''). isspace c" by (simp add: u_def isspace_def)
  have nonblank: "\<exists>c\<in>set (u '' x+1 ''). \<not> isspace c" by (simp add: u_def isspace_def)
  have stripped: "strip (u '' x+1 '') = u ''x+1''" by (simp add: u_def isspace_def strip_def)
  have none: "equations ?g (u ''Y1'') = None" by (simp add: new_graphing_engine_def)
  have empty: "equations ?g = Map.empty" by (simp add: new_graphing_engine_def)
  have 1: "equations (set_equation (?g\<lparr>equations := [u ''Y1'' \<mapsto> u ''x'']\<rparr>) (u ''Y1'') (u ''  ''))
             = Map.empty"
    using set_equation_slots [of "u ''  ''" "?g\<lparr>equations := [u ''Y1'' \<mapsto> u ''x'']\<rparr>" "u ''Y1''"] blank
    by simp
  have 2: "set_equation ?g (u ''Y1'') (u ''  '') = ?g"
    using set_equation_slots [of "u ''  ''" ?g "u ''Y1''"] blank none by blast
  have 3: "equations (set_equation ?g (u ''Y1'') (u '' x+1 '')) = [u ''Y1'' \<mapsto> u ''x+1'']"
    using set_equation_slots [of "u '' x+1 ''" ?g "u ''Y1''"] nonblank stripped empty by metis
  from blank nonblank 1 2 3 show ?thesis by (simp add: list_all_iff list_ex_iff)
qed

section \<open>The graph window\<close>

lemma float_lt_not_ge: "float_lt a b \<Longrightarrow> \<not> float_ge a b"
  by (cases a; cases b) (auto simp: float_ge_def)

text \<open>
  C7. When \<open>xmin >= xmax\<close> or \<open>ymin >= ymax\<close>, \<open>set_window\<close> raises the error
  \<open>ERROR: WINDOW\<close> and the engine, so its window, is as before; when \<open>xmin < xmax\<close>
  and \<open>ymin < ymax\<close>, the window becomes the four bounds.
\<close>

theorem set_window_checked:
  "(float_ge x0 x1 \<or> float_ge y0 y1 \<longrightarrow>
      set_window g x0 x1 y0 y1 = (Inl (TI84Error (u ''ERROR: WINDOW'')), g))
 \<and> (float_lt x0 x1 \<and> float_lt y0 y1 \<longrightarrow>
      set_window g x0 x1 y0 y1
        = (Inr (), g\<lparr>window := \<lparr>xmin = x0, xmax = x1, ymin = y0, ymax = y1\<rparr>\<rparr>))"
  by (auto simp: set_window_def dest: float_lt_not_ge)

theorem set_window_checked_witness:
  "float_ge (Fin 5) (Fin 1)
   \<and> set_window (new_graphing_engine new_engine) (Fin 5) (Fin 1) (Fin (- 10)) (Fin 10)
       = (Inl (TI84Error (u ''ERROR: WINDOW'')), new_graphing_engine new_engine)
   \<and> float_lt (Fin 0) (Fin 1) \<and> float_lt (Fin 2) (Fin 3)
   \<and> window (snd (set_window (new_graphing_engine new_engine) (Fin 0) (Fin 1) (Fin 2) (Fin 3)))
       = \<lparr>xmin = Fin 0, xmax = Fin 1, ymin = Fin 2, ymax = Fin 3\<rparr>"
  using set_window_checked [of "Fin 5" "Fin 1" "Fin (- 10)" "Fin 10" "new_graphing_engine new_engine"]
        set_window_checked [of "Fin 0" "Fin 1" "Fin 2" "Fin 3" "new_graphing_engine new_engine"]
  by (simp add: float_ge_def)

section \<open>The history\<close>

lemma slice_from_last: "0 < n \<Longrightarrow> slice_from (- n) xs = drop (length xs - nat n) xs"
  by (auto simp: slice_from_def Let_def max_def nat_diff_distrib' intro!: arg_cong2 [where f = drop])

text \<open>
  With a limit of at least 1 the history after \<open>_append_history\<close> is the last
  \<open>history_limit\<close> entries of the old history and the new entry, in their order.
\<close>

lemma append_history_last_entries:
  assumes "1 \<le> history_limit st"
  shows "history (append_history st e v)
           = drop (Suc (length (history st)) - nat (history_limit st))
               (history st @ [\<lparr>expression = e, value_str = v\<rparr>])"
    and "int (length (history (append_history st e v))) \<le> history_limit st"
  using assms by (auto simp: append_history_def Let_def slice_from_last)

text \<open>
  C5, at the limit 0. One evaluation with \<open>history_limit = 0\<close> leaves one entry in
  the history: \<open>history[-0:]\<close> is the whole list, so nothing is dropped and the
  history is longer than the limit.
\<close>

theorem history_limit_zero_exceeded:
  "map_option (\<lambda>(r, st). (history_limit st, length (history st)))
     (evaluate int_python (new_engine\<lparr>history_limit := 0\<rparr>) (u ''3+4'')) = Some (0, 1)"
  by (simp add: all_defs)

text \<open>
  C4 fails where the evaluated text reaches the engine and changes its history
  before an exception (see \<open>py_eval\<close>); such a text is outside the part of Python
  that is evaluated in this theory, so there is no computation at it here. What
  the code of \<open>evaluate\<close> itself does is this.
  After an error \<open>evaluate\<close> hands back the engine as \<open>eval\<close> left it: the engine of
  the call when the expression is blank, and otherwise the engine in the result of
  \<open>eval\<close> on the translated text. The exception is the calculator's, with one of
  its four messages.
\<close>

lemma evaluate_error_engine:
  assumes "evaluate py st expr = Some (Inl err, st')"
  shows "err \<in> TI84Error ` {u ''ERROR: SYNTAX'', u ''ERROR: DIVIDE BY 0'', u ''ERROR: MATH'',
                              u ''ERROR: OVERFLOW''}
         \<and> ((strip expr = [] \<and> st' = st)
            \<or> (\<exists>cleaned r. prepare_expression py st expr = Inr cleaned
                  \<and> py_eval py cleaned (allowed_names st Map.empty) st = Some (r, st')))"
proof (cases "prepare_expression py st expr")
  case (Inl e)
  then have "e = TI84Error (u ''ERROR: SYNTAX'') \<and> strip expr = []"
    by (auto simp: prepare_expression_def Let_def split: if_splits)
  with Inl assms show ?thesis by (simp add: evaluate_def)
next
  case (Inr cleaned)
  show ?thesis
  proof (cases "py_eval py cleaned (allowed_names st Map.empty) st")
    case None
    with Inr assms show ?thesis by (simp add: evaluate_def safe_eval_def)
  next
    case (Some p)
    obtain r st2 where p: "p = (r, st2)" by (cases p)
    have "st2 = st' \<and> err \<in> TI84Error ` {u ''ERROR: SYNTAX'', u ''ERROR: DIVIDE BY 0'',
             u ''ERROR: MATH'', u ''ERROR: OVERFLOW''}"
    proof (cases r)
      case (Inl x)
      with Some p Inr assms show ?thesis
        by (cases x) (auto simp: evaluate_def safe_eval_def)
    next
      case (Inr v)
      show ?thesis
      proof (cases "py_float py v")
        case None
        with Inr Some p \<open>prepare_expression py st expr = Inr cleaned\<close> assms show ?thesis
          by (simp add: evaluate_def safe_eval_def)
      next
        case (Some q)
        with Inr \<open>py_eval py cleaned (allowed_names st Map.empty) st = Some p\<close> p
          \<open>prepare_expression py st expr = Inr cleaned\<close> assms
        show ?thesis
          by (cases q; cases "projl q")
            (auto simp: evaluate_def safe_eval_def split: option.splits)
      qed
    qed
    with Some p Inr show ?thesis by blast
  qed
qed

section \<open>Replacing and rewriting text\<close>

lemma set_replace: "set (replace old new s) \<subseteq> set s \<union> set new"
proof (induction old new s rule: replace.induct)
  case (1 old new)
  then show ?case by auto
next
  case (2 old new c cs)
  have "set (drop (length old - 1) cs) \<subseteq> set cs" by (rule set_drop_subset)
  with 2 show ?case by (auto split: if_splits)
qed

lemma replace_char_gone: "c \<notin> set new \<Longrightarrow> c \<notin> set (replace [c] new s)"
  by (induction s) auto

lemma replace_absent: "old \<noteq> [] \<Longrightarrow> \<not> sublist old s \<Longrightarrow> replace old new s = s"
proof (induction s)
  case Nil
  then show ?case by simp
next
  case (Cons c cs)
  then have "\<not> prefix old (c # cs)" "\<not> sublist old cs"
    by (auto simp: sublist_Cons_right)
  with Cons show ?case by simp
qed

lemma replace_char_absent: "c \<notin> set s \<Longrightarrow> replace [c] new s = s"
  by (induction s) auto

text \<open>An occurrence of \<open>old\<close> that no earlier one overlaps is replaced, and the text before it stays.\<close>

lemma replace_occurrence:
  "old \<noteq> [] \<Longrightarrow> hd old \<notin> set a \<Longrightarrow> replace old new (a @ old @ b) = a @ new @ replace old new b"
proof (induction a)
  case Nil
  then show ?case by (cases old) auto
next
  case (Cons c a)
  then have "\<not> prefix old (c # a @ old @ b)" by (cases old) auto
  with Cons show ?case by simp
qed

lemma replace_nonempty: "new \<noteq> [] \<Longrightarrow> s \<noteq> [] \<Longrightarrow> replace old new s \<noteq> []"
  by (cases s) auto

lemma replace_hd:
  "old \<noteq> [] \<Longrightarrow> new \<noteq> [] \<Longrightarrow> s \<noteq> []
   \<Longrightarrow> hd (replace old new s) = hd s \<or> hd (replace old new s) = hd new"
  by (cases s) auto

lemma replace_last:
  "old \<noteq> [] \<Longrightarrow> new \<noteq> [] \<Longrightarrow> s \<noteq> []
   \<Longrightarrow> last (replace old new s) = last s \<or> last (replace old new s) \<in> set new"
proof (induction old new s rule: replace.induct)
  case (1 old new)
  then show ?case by simp
next
  case (2 old new c cs)
  show ?case
  proof (cases "prefix old (c # cs)")
    case True
    let ?rest = "drop (length old - 1) cs"
    show ?thesis
    proof (cases "?rest = []")
      case e: True
      with True 2 show ?thesis by simp
    next
      case ne: False
      then have l: "last ?rest = last (c # cs)" by (auto simp: last_drop)
      from ne 2 have r: "replace old new ?rest \<noteq> []" by (simp add: replace_nonempty)
      from 2 True ne have "last (replace old new ?rest) = last ?rest
                           \<or> last (replace old new ?rest) \<in> set new"
        by simp
      with l r True 2 show ?thesis by auto
    qed
  next
    case False
    show ?thesis
    proof (cases "cs = []")
      case True
      with False 2 show ?thesis by simp
    next
      case ne: False
      from ne 2 have r: "replace old new cs \<noteq> []" by (simp add: replace_nonempty)
      from 2 False ne have "last (replace old new cs) = last cs \<or> last (replace old new cs) \<in> set new"
        by simp
      with r False ne 2 show ?thesis by auto
    qed
  qed
qed

lemma replace_trimmed:
  assumes "old \<noteq> []" "new \<noteq> []" "\<forall>c\<in>set new. \<not> isspace c" "trimmed s"
  shows "trimmed (replace old new s)"
proof -
  from assms have s: "s \<noteq> []" by (simp add: trimmed_def)
  have "hd new \<in> set new" using assms(2) by simp
  then have h: "\<not> isspace (hd new)" using assms(3) by blast
  from replace_hd [OF assms(1,2) s] replace_last [OF assms(1,2) s]
       replace_nonempty [OF assms(2) s, of old] assms(3,4) h
  show ?thesis by (auto simp: trimmed_def)
qed

lemma re_match_bang:
  assumes "re_match py prev s = Some n"
  shows "\<exists>k. n = Suc k \<and> k < length s \<and> s ! k = 33"
proof -
  from assms have "n \<in> set (factorial_pattern py prev s 0)"
    by (auto simp: re_match_def split: list.splits)
  then show ?thesis
    by (auto simp: factorial_pattern_def m_seq_def m_class_def split: if_splits)
qed

lemma re_sub_no_bang: "33 \<notin> set s \<Longrightarrow> re_sub_factorial py prev s = s"
proof (induction s arbitrary: prev)
  case Nil
  then show ?case by simp
next
  case (Cons c cs)
  have "re_match py prev (c # cs) = None"
  proof (cases "re_match py prev (c # cs)")
    case None
    then show ?thesis .
  next
    case (Some n)
    from re_match_bang [OF Some] obtain k where "k < length (c # cs)" "(c # cs) ! k = 33"
      by blast
    then have "33 \<in> set (c # cs)" by (metis nth_mem)
    with Cons.prems show ?thesis by simp
  qed
  with Cons show ?case by simp
qed

lemma set_re_sub:
  "set (re_sub_factorial py prev s)
     \<subseteq> set s \<union> set (u ''math.factorial(int('') \<union> set (u ''))'')"
proof (induction py prev s rule: re_sub_factorial.induct)
  case (1 py prev)
  then show ?case by simp
next
  case (2 py prev c cs)
  show ?case
  proof (cases "re_match py prev (c # cs)")
    case None
    with 2 show ?thesis by auto
  next
    case (Some n)
    let ?r = "re_sub_factorial py (Some ((c # cs) ! (n - 1))) (drop (n - 1) cs)"
    have eq: "re_sub_factorial py prev (c # cs)
                = u ''math.factorial(int('' @ take (n - 1) (c # cs) @ u ''))'' @ ?r"
      using Some by simp
    have a: "set (take (n - 1) (c # cs)) \<subseteq> set (c # cs)" by (rule set_take_subset)
    have b: "set (drop (n - 1) cs) \<subseteq> set cs" by (rule set_drop_subset)
    have d: "set cs \<subseteq> set (c # cs)" by (rule set_subset_Cons)
    have ih: "set ?r \<subseteq> set (drop (n - 1) cs) \<union> set (u ''math.factorial(int('')
                \<union> set (u ''))'')"
      by (rule 2(2) [OF Some])
    show ?thesis unfolding eq using a b d ih by (simp only: set_append) blast
  qed
qed

lemma re_sub_nonempty: "s \<noteq> [] \<Longrightarrow> re_sub_factorial py prev s \<noteq> []"
  by (cases s) (auto simp: u_def split: option.splits)

lemma re_sub_hd:
  "s \<noteq> [] \<Longrightarrow> hd (re_sub_factorial py prev s) = hd s \<or> hd (re_sub_factorial py prev s) = 109"
  by (cases s) (auto simp: u_def split: option.splits)

lemma re_sub_last:
  "s \<noteq> [] \<Longrightarrow> last (re_sub_factorial py prev s) = last s \<or> last (re_sub_factorial py prev s) = 41"
proof (induction py prev s rule: re_sub_factorial.induct)
  case (1 py prev)
  then show ?case by simp
next
  case (2 py prev c cs)
  show ?case
  proof (cases "re_match py prev (c # cs)")
    case None
    show ?thesis
    proof (cases "cs = []")
      case True
      with None show ?thesis by simp
    next
      case False
      with 2(1) [OF None] re_sub_nonempty [OF False] None show ?thesis by auto
    qed
  next
    case (Some n)
    let ?rest = "drop (n - 1) cs"
    let ?p = "Some ((c # cs) ! (n - 1))"
    show ?thesis
    proof (cases "?rest = []")
      case True
      with Some show ?thesis by (simp add: u_def)
    next
      case False
      then have l: "last ?rest = last (c # cs)" by (auto simp: last_drop)
      from 2(2) [OF Some False] re_sub_nonempty [OF False, of py ?p] l Some
      show ?thesis by auto
    qed
  qed
qed

lemma re_sub_trimmed: "trimmed s \<Longrightarrow> trimmed (re_sub_factorial py prev s)"
proof -
  assume t: "trimmed s"
  then have s: "s \<noteq> []" by (simp add: trimmed_def)
  have "\<not> isspace 109" "\<not> isspace 41" by (simp_all add: isspace_def)
  with re_sub_hd [OF s, of py prev] re_sub_last [OF s, of py prev] re_sub_nonempty [OF s, of py prev] t
  show ?thesis by (auto simp: trimmed_def)
qed

lemma replace_keeps_absent: "c \<notin> set s \<Longrightarrow> c \<notin> set new \<Longrightarrow> c \<notin> set (replace old new s)"
  using set_replace [of old new s] by blast

lemma re_sub_keeps_absent:
  "c \<notin> set s \<Longrightarrow> c \<notin> set (u ''math.factorial(int())'') \<Longrightarrow> c \<notin> set (re_sub_factorial py prev s)"
  using set_re_sub [of py prev s] by (auto simp: u_def)

section \<open>Sampling\<close>

text \<open>
  C1, at a division by zero. \<open>evaluate_function\<close> lets the \<open>ZeroDivisionError\<close> of
  \<open>1/x\<close> at \<open>x = 0.0\<close> through, \<open>_evaluate_series\<close> catches \<open>TI84Error\<close> only, and
  so the exception leaves \<open>_evaluate_series\<close>: there is no series, and no
  not-a-number entry. \<open>evaluate\<close>, on the same division, raises the calculator's error.
\<close>

theorem evaluate_series_error_escapes:
  "map_option fst (evaluate_function int_python new_engine (u ''1/x'') (Fin 0))
       = Some (Inl ZeroDivisionError)
   \<and> map_option fst
        (evaluate_series int_python (new_graphing_engine new_engine) (u ''1/x'') [Fin 0, Fin 1])
       = Some (Inl ZeroDivisionError)
   \<and> map_option fst (evaluate int_python new_engine (u ''1/0''))
       = Some (Inl (TI84Error (u ''ERROR: DIVIDE BY 0'')))"
  by (simp add: all_defs evaluate_series_def new_graphing_engine_def)

section \<open>Translation and evaluation of single expressions\<close>



text \<open>
  C6. The translation of an expression that is not blank is the stripped
  expression with \<open>Ans\<close> replaced first, by the value of the last history entry or by
  \<open>0\<close> when there is none, then the other four replacements and the factorial
  rewriting. The replacement puts the value where \<open>Ans\<close> stands and leaves the text
  before it (a text without the letter \<open>A\<close>) as it is. After \<open>evaluate("3+4")\<close>,
  which gives 7, \<open>evaluate("Ans*2")\<close> gives 14.
\<close>

theorem previous_answer_substitution:
  "(strip e \<noteq> [] \<longrightarrow>
      prepare_expression py st e
        = Inr (re_sub_factorial py None
                (replace [8730] (u ''sqrt'') (replace [247] (u ''/'') (replace [215] (u ''*'')
                  (replace (u ''^'') (u ''**'')
                    (replace (u ''Ans'')
                       (if history st = [] then u ''0'' else value_str (last (history st)))
                       (strip e))))))))
   \<and> (65 \<notin> set a \<longrightarrow>
        replace (u ''Ans'') v (a @ u ''Ans'' @ b) = a @ v @ replace (u ''Ans'') v b)
   \<and> prepare_expression py new_engine (u ''Ans*2'') = Inr (u ''0*2'')
   \<and> (\<exists>st1. evaluate int_python new_engine (u ''3+4'')
                = Some (Inr \<lparr>expression = u ''3+4'', value_str = u ''7''\<rparr>, st1)
            \<and> prepare_expression int_python st1 (u ''Ans*2'') = Inr (u ''7*2'')
            \<and> map_option fst (evaluate int_python st1 (u ''Ans*2''))
                = Some (Inr \<lparr>expression = u ''Ans*2'', value_str = u ''14''\<rparr>))"
proof (intro conjI impI)
  assume "strip e \<noteq> []"
  then show "prepare_expression py st e
        = Inr (re_sub_factorial py None
                (replace [8730] (u ''sqrt'') (replace [247] (u ''/'') (replace [215] (u ''*'')
                  (replace (u ''^'') (u ''**'')
                    (replace (u ''Ans'')
                       (if history st = [] then u ''0'' else value_str (last (history st)))
                       (strip e)))))))"
    by (simp add: prepare_expression_def replacements_def)
next
  assume "65 \<notin> set a"
  then show "replace (u ''Ans'') v (a @ u ''Ans'' @ b) = a @ v @ replace (u ''Ans'') v b"
    by (intro replace_occurrence) (simp_all add: u_def)
next
  show "prepare_expression py new_engine (u ''Ans*2'') = Inr (u ''0*2'')"
    by (simp add: all_defs)
next
  let ?st1 = "new_engine\<lparr>history := [\<lparr>expression = u ''3+4'', value_str = u ''7''\<rparr>]\<rparr>"
  have 1: "evaluate int_python new_engine (u ''3+4'')
             = Some (Inr \<lparr>expression = u ''3+4'', value_str = u ''7''\<rparr>, ?st1)"
    by (simp add: all_defs)
  have 2: "prepare_expression int_python ?st1 (u ''Ans*2'') = Inr (u ''7*2'')"
    by (simp add: all_defs)
  have 3: "map_option fst (evaluate int_python ?st1 (u ''Ans*2''))
             = Some (Inr \<lparr>expression = u ''Ans*2'', value_str = u ''14''\<rparr>)"
    by (simp add: all_defs)
  from 1 2 3 show "\<exists>st1. evaluate int_python new_engine (u ''3+4'')
                = Some (Inr \<lparr>expression = u ''3+4'', value_str = u ''7''\<rparr>, st1)
            \<and> prepare_expression int_python st1 (u ''Ans*2'') = Inr (u ''7*2'')
            \<and> map_option fst (evaluate int_python st1 (u ''Ans*2''))
                = Some (Inr \<lparr>expression = u ''Ans*2'', value_str = u ''14''\<rparr>)"
    by blast
qed

theorem previous_answer_substitution_witness:
  "strip (u '' Ans^2 '') \<noteq> []
   \<and> prepare_expression int_python
        (new_engine\<lparr>history := [\<lparr>expression = u ''3+4'', value_str = u ''7''\<rparr>]\<rparr>) (u '' Ans^2 '')
       = Inr (u ''7**2'')
   \<and> 65 \<notin> set (u ''2*'')
   \<and> replace (u ''Ans'') (u ''7'') (u ''2*'' @ u ''Ans'' @ u ''+1'') = u ''2*7+1''"
proof -
  have a: "65 \<notin> set (u ''2*'')" by (simp add: u_def)
  have b: "replace (u ''Ans'') (u ''7'') (u ''+1'') = u ''+1''" by (simp add: u_def)
  have o: "replace (u ''Ans'') (u ''7'') (u ''2*'' @ u ''Ans'' @ u ''+1'') = u ''2*7+1''"
    using previous_answer_substitution
            [of "u '' Ans^2 ''" int_python new_engine "u ''2*''" "u ''7''" "u ''+1''"] a b
    by (simp add: u_def)
  have ne: "strip (u '' Ans^2 '') \<noteq> []" by (simp add: u_def strip_def isspace_def)
  have r: "re_sub_factorial int_python None
             (replace [8730] (u ''sqrt'') (replace [247] (u ''/'') (replace [215] (u ''*'')
               (replace (u ''^'') (u ''**'') (replace (u ''Ans'') (u ''7'') (strip (u '' Ans^2 '')))))))
           = u ''7**2''"
    by (simp add: all_defs)
  from previous_answer_substitution
         [of "u '' Ans^2 ''" int_python
             "new_engine\<lparr>history := [\<lparr>expression = u ''3+4'', value_str = u ''7''\<rparr>]\<rparr>"]
       ne r a o
  show ?thesis by (simp add: new_engine_def)
qed

text \<open>
  C8. For a finite value \<open>r\<close>: below the double \<open>1e-10\<close> in magnitude the text is
  \<open>0\<close>; otherwise, below \<open>1e4\<close> in magnitude and integral, it is the decimal text of
  the integer; otherwise it is the value in the format \<open>.10g\<close>. \<open>evaluate("4/2")\<close>
  has the text \<open>2\<close>.
\<close>

theorem format_result_finite:
  "(\<bar>r\<bar> < 7737125245533627 / 77371252455336267181195264 \<longrightarrow>
      format_result py (Fin r) = Some (u ''0''))
   \<and> (\<not> \<bar>r\<bar> < 7737125245533627 / 77371252455336267181195264 \<and> \<bar>r\<bar> < 10000 \<and> r = of_int n \<longrightarrow>
      format_result py (Fin r) = Some (str_int n))
   \<and> (\<not> \<bar>r\<bar> < 7737125245533627 / 77371252455336267181195264 \<and> \<not> (\<bar>r\<bar> < 10000 \<and> r \<in> \<int>) \<longrightarrow>
      format_result py (Fin r) = format_10g py (Fin r))
   \<and> map_option fst (evaluate int_python new_engine (u ''4/2''))
       = Some (Inr \<lparr>expression = u ''4/2'', value_str = u ''2''\<rparr>)"
proof (intro conjI impI)
  assume "\<bar>r\<bar> < 7737125245533627 / 77371252455336267181195264"
  then have "float_lt (float_abs (Fin r)) float_1e_minus_10"
    by (simp add: float_1e_minus_10_def)
  then show "format_result py (Fin r) = Some (u ''0'')"
    by (simp add: format_result_def trunc_def str_int_def str_nat.simps u_def)
next
  assume a: "\<not> \<bar>r\<bar> < 7737125245533627 / 77371252455336267181195264 \<and> \<bar>r\<bar> < 10000 \<and> r = of_int n"
  from a have a1: "\<not> \<bar>r\<bar> < 7737125245533627 / 77371252455336267181195264"
    and a2: "\<bar>r\<bar> < 10000" and a3: "r = of_int n"
    by blast+
  have c1: "\<not> float_lt (float_abs (Fin r)) float_1e_minus_10"
    using a1 by (simp add: float_1e_minus_10_def)
  have c2: "float_lt (float_abs (Fin r)) (Fin 10000)" using a2 by simp
  have c3: "trunc r = n" using a3 by (simp add: trunc_def)
  have c4: "r = of_int (trunc r)" using a3 c3 by simp
  show "format_result py (Fin r) = Some (str_int n)"
    unfolding format_result_def Let_def using c1 c2 c3 c4 by simp
next
  assume a: "\<not> \<bar>r\<bar> < 7737125245533627 / 77371252455336267181195264 \<and> \<not> (\<bar>r\<bar> < 10000 \<and> r \<in> \<int>)"
  from a have a1: "\<not> \<bar>r\<bar> < 7737125245533627 / 77371252455336267181195264"
    and a2: "\<not> (\<bar>r\<bar> < 10000 \<and> r \<in> \<int>)"
    by blast+
  have c1: "\<not> float_lt (float_abs (Fin r)) float_1e_minus_10"
    using a1 by (simp add: float_1e_minus_10_def)
  have "r = of_int (trunc r) \<Longrightarrow> r \<in> \<int>" by (metis Ints_of_int)
  then have c2: "\<not> (float_lt (float_abs (Fin r)) (Fin 10000) \<and> r = of_int (trunc r))"
    using a2 by auto
  show "format_result py (Fin r) = format_10g py (Fin r)"
    unfolding format_result_def Let_def using c1 c2 by auto
next
  show "map_option fst (evaluate int_python new_engine (u ''4/2''))
       = Some (Inr \<lparr>expression = u ''4/2'', value_str = u ''2''\<rparr>)"
    by (simp add: all_defs)
qed

theorem format_result_finite_witness:
  "format_result int_python (Fin 0) = Some (u ''0'')
   \<and> format_result int_python (Fin 120) = Some (u ''120'')
   \<and> format_result int_python (Fin 12345) = Some (u ''12345'')"
proof -
  have 1: "format_result int_python (Fin 0) = Some (u ''0'')"
    using format_result_finite [of 0 int_python 0] by simp
  have 2: "format_result int_python (Fin 120) = Some (str_int 120)"
    using format_result_finite [of 120 int_python 120] by simp
  have "(12345::rat) \<in> \<int>" by simp
  then have 3: "format_result int_python (Fin 12345) = format_10g int_python (Fin 12345)"
    using format_result_finite [of 12345 int_python 12345] by simp
  have 4: "str_int 120 = u ''120''" "format_10g int_python (Fin 12345) = Some (u ''12345'')"
    by (simp_all add: all_defs)
  from 1 2 3 4 show ?thesis by simp
qed

section \<open>The names an expression can use\<close>








section \<open>What a translation leaves\<close>

text \<open>
  C9, as the code has it. A translation \<open>t\<close> holds none of the caret, the
  multiplication sign, the division sign and the root sign. A \<open>!\<close> and the text \<open>Ans\<close>
  can be left in it; when neither is, and the last value of the history (if there is
  one) is not empty and has no whitespace, translating \<open>t\<close> again gives \<open>t\<close>.
\<close>

theorem translation_result:
  assumes "prepare_expression py st e = Inr t"
  shows "94 \<notin> set t \<and> 215 \<notin> set t \<and> 247 \<notin> set t \<and> 8730 \<notin> set t
         \<and> ((history st \<noteq> [] \<longrightarrow>
                value_str (last (history st)) \<noteq> []
                \<and> (\<forall>c\<in>set (value_str (last (history st))). \<not> isspace c))
             \<and> 33 \<notin> set t \<and> \<not> sublist (u ''Ans'') t
            \<longrightarrow> prepare_expression py st t = Inr t)"
proof -
  define v where "v = (if history st \<noteq> [] then value_str (last (history st)) else u ''0'')"
  define s0 where "s0 = strip e"
  define s1 where "s1 = replace (u ''Ans'') v s0"
  define s2 where "s2 = replace [94] (u ''**'') s1"
  define s3 where "s3 = replace [215] (u ''*'') s2"
  define s4 where "s4 = replace [247] (u ''/'') s3"
  define s5 where "s5 = replace [8730] (u ''sqrt'') s4"
  have caret: "u ''^'' = [94]" by (simp add: u_def)
  have prep: "\<And>x. strip x \<noteq> [] \<Longrightarrow>
      prepare_expression py st x
        = Inr (re_sub_factorial py None
                (replace [8730] (u ''sqrt'') (replace [247] (u ''/'') (replace [215] (u ''*'')
                  (replace [94] (u ''**'') (replace (u ''Ans'') v (strip x)))))))"
    by (simp add: prepare_expression_def replacements_def v_def caret)
  have ne: "s0 \<noteq> []"
    using assms by (auto simp: prepare_expression_def s0_def Let_def split: if_splits)
  have t: "t = re_sub_factorial py None s5"
    using assms prep [of e] ne by (simp add: s0_def s1_def s2_def s3_def s4_def s5_def)
  have g1: "94 \<notin> set t"
  proof -
    have "94 \<notin> set s2" unfolding s2_def by (rule replace_char_gone) (simp add: u_def)
    then have "94 \<notin> set s3" unfolding s3_def by (rule replace_keeps_absent) (simp add: u_def)
    then have "94 \<notin> set s4" unfolding s4_def by (rule replace_keeps_absent) (simp add: u_def)
    then have "94 \<notin> set s5" unfolding s5_def by (rule replace_keeps_absent) (simp add: u_def)
    then show ?thesis unfolding t by (rule re_sub_keeps_absent) (simp add: u_def)
  qed
  have g2: "215 \<notin> set t"
  proof -
    have "215 \<notin> set s3" unfolding s3_def by (rule replace_char_gone) (simp add: u_def)
    then have "215 \<notin> set s4" unfolding s4_def by (rule replace_keeps_absent) (simp add: u_def)
    then have "215 \<notin> set s5" unfolding s5_def by (rule replace_keeps_absent) (simp add: u_def)
    then show ?thesis unfolding t by (rule re_sub_keeps_absent) (simp add: u_def)
  qed
  have g3: "247 \<notin> set t"
  proof -
    have "247 \<notin> set s4" unfolding s4_def by (rule replace_char_gone) (simp add: u_def)
    then have "247 \<notin> set s5" unfolding s5_def by (rule replace_keeps_absent) (simp add: u_def)
    then show ?thesis unfolding t by (rule re_sub_keeps_absent) (simp add: u_def)
  qed
  have g4: "8730 \<notin> set t"
  proof -
    have "8730 \<notin> set s5" unfolding s5_def by (rule replace_char_gone) (simp add: u_def)
    then show ?thesis unfolding t by (rule re_sub_keeps_absent) (simp add: u_def)
  qed
  have again: "prepare_expression py st t = Inr t"
    if h: "history st \<noteq> [] \<longrightarrow>
             value_str (last (history st)) \<noteq> []
             \<and> (\<forall>c\<in>set (value_str (last (history st))). \<not> isspace c)"
      and bang: "33 \<notin> set t" and ans: "\<not> sublist (u ''Ans'') t"
  proof -
    have v: "v \<noteq> []" "\<forall>c\<in>set v. \<not> isspace c"
      using h by (auto simp: v_def u_def isspace_def)
    have "trimmed s0" using ne strip_ends [of e] by (simp add: trimmed_def s0_def)
    then have "trimmed s1" unfolding s1_def using v
      by (intro replace_trimmed) (simp_all add: u_def)
    then have "trimmed s2" unfolding s2_def
      by (intro replace_trimmed) (simp_all add: u_def isspace_def)
    then have "trimmed s3" unfolding s3_def
      by (intro replace_trimmed) (simp_all add: u_def isspace_def)
    then have "trimmed s4" unfolding s4_def
      by (intro replace_trimmed) (simp_all add: u_def isspace_def)
    then have "trimmed s5" unfolding s5_def
      by (intro replace_trimmed) (simp_all add: u_def isspace_def)
    then have "trimmed t" unfolding t by (rule re_sub_trimmed)
    then have st: "strip t = t" and tne: "t \<noteq> []"
      by (simp_all add: trimmed_def strip_id)
    have r1: "replace (u ''Ans'') v t = t" using ans by (intro replace_absent) (simp_all add: u_def)
    have r2: "replace [94] (u ''**'') t = t" using g1 by (rule replace_char_absent)
    have r3: "replace [215] (u ''*'') t = t" using g2 by (rule replace_char_absent)
    have r4: "replace [247] (u ''/'') t = t" using g3 by (rule replace_char_absent)
    have r5: "replace [8730] (u ''sqrt'') t = t" using g4 by (rule replace_char_absent)
    have r6: "re_sub_factorial py None t = t" using bang by (rule re_sub_no_bang)
    from prep [of t] st tne show ?thesis by (simp add: r1 r2 r3 r4 r5 r6)
  qed
  from g1 g2 g3 g4 again show ?thesis by blast
qed

theorem translation_result_witness:
  "prepare_expression int_python new_engine (u '' 2^3 '') = Inr (u ''2**3'')
   \<and> 94 \<notin> set (u ''2**3'') \<and> 33 \<notin> set (u ''2**3'') \<and> \<not> sublist (u ''Ans'') (u ''2**3'')
   \<and> prepare_expression int_python new_engine (u ''2**3'') = Inr (u ''2**3'')"
proof -
  have p: "prepare_expression int_python new_engine (u '' 2^3 '') = Inr (u ''2**3'')"
    by (simp add: all_defs)
  have h: "history new_engine = []" by (simp add: new_engine_def)
  have b: "33 \<notin> set (u ''2**3'')" "94 \<notin> set (u ''2**3'')" by (simp_all add: u_def)
  have a: "\<not> sublist (u ''Ans'') (u ''2**3'')" by (simp add: u_def sublist_Cons_right)
  from translation_result [OF p] h b a
  have "prepare_expression int_python new_engine (u ''2**3'') = Inr (u ''2**3'')" by blast
  with p b a show ?thesis by blast
qed

text \<open>
  The claim C9 as stated fails. The \<open>!\<close> after a group with parentheses inside stays;
  \<open>An\<close> before a root sign becomes \<open>Ans\<close>, which a second translation replaces; the
  \<open>!\<close> inside a group that is itself followed by \<open>!\<close> is rewritten only by the second
  translation.
\<close>

theorem translation_counterexample:
  "prepare_expression int_python new_engine (u ''(1+(2))!'') = Inr (u ''(1+(2))!'')
   \<and> prepare_expression int_python new_engine (u ''An'' @ [8730] @ u ''4'') = Inr (u ''Ansqrt4'')
   \<and> prepare_expression int_python new_engine (u ''Ansqrt4'') = Inr (u ''0qrt4'')
   \<and> prepare_expression int_python new_engine (u ''(5!)!'') = Inr (u ''math.factorial(int((5!)))'')
   \<and> prepare_expression int_python new_engine (u ''math.factorial(int((5!)))'')
       = Inr (u ''math.factorial(int((math.factorial(int(5)))))'')"
  by (simp add: all_defs)

end
